theory Spec2Isabelle
  imports Main "HOL-Library.Multiset"
begin

section \<open>Python values used by the pipeline\<close>

text \<open>
  An exception object; the string is what \<open>str(e)\<close> gives. The type stands for the
  instances of Python's \<open>Exception\<close> class, which is what \<open>except Exception\<close> in
  \<open>ResearchManager.search\<close> matches.
\<close>

datatype exception = Exception string

fun str_exception :: "exception \<Rightarrow> string" where
  "str_exception (Exception msg) = msg"

text \<open>\<open>str(n)\<close> for a non-negative int, and for any int.\<close>

definition digit_char :: "nat \<Rightarrow> char" where
  "digit_char d = char_of (48 + d)"

fun str_nat :: "nat \<Rightarrow> string" where
  "str_nat n = (if n < 10 then [digit_char n] else str_nat (n div 10) @ [digit_char (n mod 10)])"

declare str_nat.simps [simp del]

definition str_int :: "int \<Rightarrow> string" where
  "str_int i = (if i < 0 then CHR ''-'' # str_nat (nat (- i)) else str_nat (nat i))"

text \<open>
  \<open>repr(s)\<close> for a str, which is how an f-string prints the elements of a list.
  Characters are bytes here: values below 128 are ASCII code points, values from 128 on
  are the UTF-8 bytes of printable characters, which \<open>repr\<close> leaves as they are.
\<close>

definition hex_digit :: "nat \<Rightarrow> char" where
  "hex_digit d = (if d < 10 then char_of (48 + d) else char_of (87 + d))"

definition repr_char :: "char \<Rightarrow> char \<Rightarrow> string" where
  "repr_char quote c =
     (if c = quote \<or> c = CHR 0x5C then [CHR 0x5C, c]
      else if c = CHR 0x09 then [CHR 0x5C, CHR ''t'']
      else if c = CHR 0x0A then [CHR 0x5C, CHR ''n'']
      else if c = CHR 0x0D then [CHR 0x5C, CHR ''r'']
      else if (of_char c :: nat) < 32 \<or> c = CHR 0x7F
        then [CHR 0x5C, CHR ''x'', hex_digit ((of_char c :: nat) div 16),
              hex_digit ((of_char c :: nat) mod 16)]
      else [c])"

definition repr_str :: "string \<Rightarrow> string" where
  "repr_str s =
     (let quote = (if CHR 0x27 \<in> set s \<and> CHR 0x22 \<notin> set s then CHR 0x22 else CHR 0x27)
      in quote # concat (map (repr_char quote) s) @ [quote])"

fun join :: "string \<Rightarrow> string list \<Rightarrow> string" where
  "join sep [] = []"
| "join sep [x] = x"
| "join sep (x # y # ys) = x @ sep @ join sep (y # ys)"

definition str_list :: "string list \<Rightarrow> string" where
  "str_list xs = ''['' @ join '', '' (map repr_str xs) @ '']''"

section \<open>Data model (planner\_agent.py, writer\_agent.py)\<close>

record WebSearchItem =
  reason :: string
  query :: string

record WebSearchPlan =
  searches :: "WebSearchItem list"

record ReportData =
  short_summary :: string
  markdown_report :: string
  follow_up_questions :: "string list"

definition HOW_MANY_SEARCHES :: nat where
  "HOW_MANY_SEARCHES = 5"

definition planner_INSTRUCTIONS :: string where
  "planner_INSTRUCTIONS =
     ''You are a helpful research assistant. Given a query, come up with a set of web searches ''
     @ ''to perform to best answer the query. Output '' @ str_nat HOW_MANY_SEARCHES
     @ '' terms to query for.''"

subsection \<open>Structured output of the hosted model\<close>

text \<open>
  The parsed response of the hosted model. An object is the parsed dict: each key once.
  An agent declared with \<open>output_type=C\<close> has its response checked against the fields
  of the pydantic class \<open>C\<close>; every field of the three classes is required (a \<open>Field\<close>
  without a default), a \<open>str\<close> field takes a JSON string, a \<open>list\<close> field a JSON array,
  and keys that are no field of the class are ignored.
\<close>

datatype json =
    JNull
  | JBool bool
  | JNum int
  | JStr string
  | JArr "json list"
  | JObj "(string \<times> json) list"

definition str_field :: "(string \<times> json) list \<Rightarrow> string \<Rightarrow> string option" where
  "str_field fs k = (case map_of fs k of Some (JStr v) \<Rightarrow> Some v | _ \<Rightarrow> None)"

definition list_field :: "(string \<times> json) list \<Rightarrow> string \<Rightarrow> json list option" where
  "list_field fs k = (case map_of fs k of Some (JArr vs) \<Rightarrow> Some vs | _ \<Rightarrow> None)"

fun all_valid :: "(exception + 'a) list \<Rightarrow> exception + 'a list" where
  "all_valid [] = Inr []"
| "all_valid (Inl e # rs) = Inl e"
| "all_valid (Inr v # rs) = (case all_valid rs of Inl e \<Rightarrow> Inl e | Inr vs \<Rightarrow> Inr (v # vs))"

definition validation_error :: "string \<Rightarrow> exception" where
  "validation_error cls = Exception (''Invalid JSON when parsing output for '' @ cls)"

definition validate_str :: "json \<Rightarrow> exception + string" where
  "validate_str j = (case j of JStr v \<Rightarrow> Inr v | _ \<Rightarrow> Inl (validation_error ''str''))"

definition validate_WebSearchItem :: "json \<Rightarrow> exception + WebSearchItem" where
  "validate_WebSearchItem j =
     (case j of
        JObj fs \<Rightarrow>
          (case (str_field fs ''reason'', str_field fs ''query'') of
             (Some r, Some q) \<Rightarrow> Inr \<lparr>reason = r, query = q\<rparr>
           | _ \<Rightarrow> Inl (validation_error ''WebSearchItem''))
      | _ \<Rightarrow> Inl (validation_error ''WebSearchItem''))"

definition validate_WebSearchPlan :: "json \<Rightarrow> exception + WebSearchPlan" where
  "validate_WebSearchPlan j =
     (case j of
        JObj fs \<Rightarrow>
          (case list_field fs ''searches'' of
             Some items \<Rightarrow>
               (case all_valid (map validate_WebSearchItem items) of
                  Inr its \<Rightarrow> Inr \<lparr>searches = its\<rparr>
                | Inl e \<Rightarrow> Inl e)
           | None \<Rightarrow> Inl (validation_error ''WebSearchPlan''))
      | _ \<Rightarrow> Inl (validation_error ''WebSearchPlan''))"

definition validate_ReportData :: "json \<Rightarrow> exception + ReportData" where
  "validate_ReportData j =
     (case j of
        JObj fs \<Rightarrow>
          (case (str_field fs ''short_summary'', str_field fs ''markdown_report'',
                 list_field fs ''follow_up_questions'') of
             (Some s, Some m, Some qs) \<Rightarrow>
               (case all_valid (map validate_str qs) of
                  Inr fq \<Rightarrow> Inr \<lparr>short_summary = s, markdown_report = m, follow_up_questions = fq\<rparr>
                | Inl e \<Rightarrow> Inl e)
           | _ \<Rightarrow> Inl (validation_error ''ReportData''))
      | _ \<Rightarrow> Inl (validation_error ''ReportData''))"

section \<open>The external collaborators\<close>

text \<open>
  The four agents of the repository. The hosted runtime, the email provider, the
  scheduler and the trace-id generator are not part of the repository; they are the
  fields of \<open>env\<close>, and every theorem below holds for all of them.
\<close>

datatype agent = planner_agent | search_agent | writer_agent | email_agent

text \<open>What the hosted model of the email agent does next: call its one tool or finish.\<close>

datatype agent_step = ToolCall string string | FinalOutput string

text \<open>
  What the hosted model is told about a tool call: the value the tool returned, or the
  text of the error when the tool raised.
\<close>

datatype tool_result = ToolReturned "(string \<times> string) list" | ToolError string

record Mail =
  from_email :: string
  to_email :: string
  subject :: string
  content_type :: string
  content_value :: string

record env =
  planner_model :: "string \<Rightarrow> exception + json"
  search_model :: "nat \<Rightarrow> string \<Rightarrow> exception + string"
  writer_model :: "string \<Rightarrow> exception + json"
  email_model :: "string \<Rightarrow> tool_result list \<Rightarrow> exception + agent_step"
  max_turns :: nat
  SENDGRID_API_KEY :: "string option"
  provider_status :: "Mail \<Rightarrow> int"
  latency :: "nat \<Rightarrow> nat"
  trace_ids :: "nat \<Rightarrow> string"

text \<open>
  \<open>search_model env i inp\<close> is the outcome of the external call of the \<open>i\<close>-th search
  task on input \<open>inp\<close>; \<open>latency env i\<close> is the time at which that task completes;
  \<open>email_model env inp results\<close> is the next step of the email agent's hosted model
  on input \<open>inp\<close> after the tool calls whose results are \<open>results\<close>;
  \<open>provider_status env mail\<close> is the HTTP status with which the email provider answers
  the request to send \<open>mail\<close> (202, 401, 500, ...);
  \<open>trace_ids env n\<close> is the \<open>n\<close>-th identifier that \<open>gen_trace_id\<close> hands out.
\<close>

section \<open>Observable events\<close>

text \<open>
  Every function of the model returns its result together with the events it produces,
  in order: \<open>Print\<close> is a line on standard output, \<open>Yield\<close> a chunk handed to the
  consumer of the generator \<open>run\<close>, \<open>RunnerCall\<close> a request to the hosted runtime,
  \<open>MailPost\<close> a request to the email provider with the API key in use,
  \<open>TaskCreated\<close> a call of \<open>asyncio.create_task\<close>, \<open>TaskDone\<close> the return of
  \<open>await task\<close> in the loop of \<open>perform_searches\<close>, and \<open>TraceStart\<close> and
  \<open>TraceFinish\<close> the entry to and the exit from \<open>with trace(...)\<close>.
\<close>

datatype event =
    Print string
  | Yield string
  | TraceStart string string
  | TraceFinish string
  | RunnerCall agent string
  | TaskCreated nat
  | TaskDone nat
  | MailPost "string option" Mail

definition chunks :: "event list \<Rightarrow> string list" where
  "chunks evs = concat (map (\<lambda>e. case e of Yield c \<Rightarrow> [c] | _ \<Rightarrow> []) evs)"

definition done_tasks :: "event list \<Rightarrow> nat list" where
  "done_tasks evs = concat (map (\<lambda>e. case e of TaskDone i \<Rightarrow> [i] | _ \<Rightarrow> []) evs)"

definition created_tasks :: "event list \<Rightarrow> nat list" where
  "created_tasks evs = concat (map (\<lambda>e. case e of TaskCreated i \<Rightarrow> [i] | _ \<Rightarrow> []) evs)"

definition calls_to :: "agent \<Rightarrow> event list \<Rightarrow> string list" where
  "calls_to a evs =
     concat (map (\<lambda>e. case e of RunnerCall b inp \<Rightarrow> (if b = a then [inp] else []) | _ \<Rightarrow> []) evs)"

definition mail_posts :: "event list \<Rightarrow> Mail list" where
  "mail_posts evs = concat (map (\<lambda>e. case e of MailPost k m \<Rightarrow> [m] | _ \<Rightarrow> []) evs)"

definition progress_ticks :: "event list \<Rightarrow> string list" where
  "progress_ticks evs =
     concat (map (\<lambda>e. case e of Print s \<Rightarrow> (if take 13 s = ''Searching... '' then [s] else [])
                          | _ \<Rightarrow> []) evs)"

section \<open>email\_agent.py\<close>

text \<open>
  \<open>sg.client.mail.send.post\<close>: the provider's client, which is not part of the
  repository. It returns the response when the provider answers with a 2xx status and
  raises an HTTP error for every other status.
\<close>

definition http_error :: "int \<Rightarrow> exception" where
  "http_error status_code = Exception (''HTTP Error '' @ str_int status_code)"

definition sendgrid_post :: "env \<Rightarrow> Mail \<Rightarrow> exception + int" where
  "sendgrid_post env mail =
     (let status_code = provider_status env mail
      in if 200 \<le> status_code \<and> status_code < 300 then Inr status_code
         else Inl (http_error status_code))"

text \<open>
  The function \<open>send_email\<close>. It has no \<open>try\<close>: an exception of the client leaves it
  before the \<open>print\<close> and the \<open>return\<close>.
\<close>

definition send_email_tool :: "env \<Rightarrow> string \<Rightarrow> string
                                 \<Rightarrow> (exception + (string \<times> string) list) \<times> event list" where
  "send_email_tool env subj html_body =
     (let mail = \<lparr>from_email = ''ish.mishra03@gmail.com'', to_email = ''ish.mishra03@gmail.com'',
                  subject = subj, content_type = ''text/html'', content_value = html_body\<rparr>
      in case sendgrid_post env mail of
           Inl e \<Rightarrow> (Inl e, [MailPost (SENDGRID_API_KEY env) mail])
         | Inr status_code \<Rightarrow>
             (Inr [(''status'', ''success'')],
              [MailPost (SENDGRID_API_KEY env) mail,
               Print (''Email response status: '' @ str_int status_code)]))"

text \<open>
  \<open>@function_tool\<close>: the tool as the runtime invokes it. An exception of the function
  does not leave the agent's run; the hosted model is told the error instead.
\<close>

definition function_tool_send_email :: "env \<Rightarrow> string \<Rightarrow> string \<Rightarrow> tool_result \<times> event list" where
  "function_tool_send_email env subj html_body =
     (let (returned, ev) = send_email_tool env subj html_body
      in case returned of
           Inl e \<Rightarrow>
             (ToolError (''An error occurred while running the tool. Please try again. Error: ''
                          @ str_exception e), ev)
         | Inr out \<Rightarrow> (ToolReturned out, ev))"

section \<open>Runner.run, per agent\<close>

definition Runner_run_planner :: "env \<Rightarrow> string \<Rightarrow> (exception + WebSearchPlan) \<times> event list" where
  "Runner_run_planner env inp =
     ((case planner_model env inp of Inl e \<Rightarrow> Inl e | Inr j \<Rightarrow> validate_WebSearchPlan j),
      [RunnerCall planner_agent inp])"

definition Runner_run_search :: "env \<Rightarrow> nat \<Rightarrow> string \<Rightarrow> (exception + string) \<times> event list" where
  "Runner_run_search env i inp = (search_model env i inp, [RunnerCall search_agent inp])"

definition Runner_run_writer :: "env \<Rightarrow> string \<Rightarrow> (exception + ReportData) \<times> event list" where
  "Runner_run_writer env inp =
     ((case writer_model env inp of Inl e \<Rightarrow> Inl e | Inr j \<Rightarrow> validate_ReportData j),
      [RunnerCall writer_agent inp])"

text \<open>
  The email agent has the tool \<open>send_email\<close>. The runtime asks the hosted model for its
  next step, runs the tool when the step is a tool call and hands the result back, until
  the model finishes, the call of the model fails or the turn limit is reached.
\<close>

fun email_turns :: "env \<Rightarrow> nat \<Rightarrow> string \<Rightarrow> tool_result list
                      \<Rightarrow> (exception + string) \<times> event list" where
  "email_turns env 0 inp outs = (Inl (Exception ''Max turns exceeded''), [])"
| "email_turns env (Suc t) inp outs =
     (case email_model env inp outs of
        Inl e \<Rightarrow> (Inl e, [])
      | Inr (FinalOutput out) \<Rightarrow> (Inr out, [])
      | Inr (ToolCall subj html_body) \<Rightarrow>
          (let (out, ev) = function_tool_send_email env subj html_body;
               (r, evs) = email_turns env t inp (outs @ [out])
           in (r, ev @ evs)))"

definition Runner_run_email :: "env \<Rightarrow> string \<Rightarrow> (exception + string) \<times> event list" where
  "Runner_run_email env inp =
     (let (r, evs) = email_turns env (max_turns env) inp []
      in (r, RunnerCall email_agent inp # evs))"

section \<open>research\_manager.py\<close>

definition gen_trace_id :: "env \<Rightarrow> nat \<Rightarrow> string \<times> nat" where
  "gen_trace_id env n = (trace_ids env n, Suc n)"

definition plan_searches :: "env \<Rightarrow> string \<Rightarrow> (exception + WebSearchPlan) \<times> event list" where
  "plan_searches env q =
     (let (result, ev) = Runner_run_planner env (''Query: '' @ q)
      in case result of
           Inl e \<Rightarrow> (Inl e, Print ''Planning searches...'' # ev)
         | Inr final_output \<Rightarrow>
             (Inr final_output,
              Print ''Planning searches...'' # ev @
              [Print (''Will perform '' @ str_nat (length (searches final_output)) @ '' searches'')]))"

definition search_input :: "WebSearchItem \<Rightarrow> string" where
  "search_input item =
     ''Search term: '' @ query item @ [CHR 0x0A] @ ''Reason for searching: '' @ reason item"

text \<open>
  \<open>search\<close> is a coroutine: it runs up to the \<open>await\<close> of the external call when its
  task starts, and from there to its end when the call has resolved. The result comes
  with the events of the two parts. The \<open>try\<close> block turns an exception of the call
  into the value \<open>None\<close>.
\<close>

definition search :: "env \<Rightarrow> nat \<Rightarrow> WebSearchItem
                        \<Rightarrow> (exception + string option) \<times> event list \<times> event list" where
  "search env i item =
     (let input_data = search_input item;
          (result, ev) = Runner_run_search env i input_data
      in case result of
           Inr final_output \<Rightarrow> (Inr (Some final_output), ev, [])
         | Inl e \<Rightarrow>
             (Inr None, ev,
              [Print (''Search failed for term '' @ [CHR 0x27] @ query item
                        @ [CHR 0x27] @ '': '' @ str_exception e)]))"

text \<open>
  \<open>asyncio.create_task(self.search(item))\<close>: the task with its index in \<open>tasks\<close>,
  what awaiting it gives, and the events of its two parts.
\<close>

record Task =
  task_index :: nat
  task_outcome :: "exception + string option"
  task_started :: "event list"
  task_resumed :: "event list"

definition create_task :: "env \<Rightarrow> nat \<Rightarrow> WebSearchItem \<Rightarrow> Task" where
  "create_task env i item =
     (let (outcome, ev_start, ev_end) = search env i item
      in \<lparr>task_index = i, task_outcome = outcome, task_started = ev_start,
          task_resumed = ev_end\<rparr>)"

text \<open>
  \<open>asyncio.as_completed\<close>: the tasks in the order in which they complete; tasks that
  complete at the same time come in the order of their creation.
\<close>

definition as_completed :: "env \<Rightarrow> Task list \<Rightarrow> Task list" where
  "as_completed env tasks = sort_key (\<lambda>task. latency env (task_index task)) tasks"

definition tick_message :: "nat \<Rightarrow> nat \<Rightarrow> string" where
  "tick_message num_completed len_tasks =
     ''Searching... '' @ str_nat num_completed @ ''/'' @ str_nat len_tasks @ '' completed''"

text \<open>
  The \<open>for task in asyncio.as_completed(tasks)\<close> loop, with the loop variables
  \<open>num_completed\<close> and \<open>results\<close>. \<open>await task\<close> raises what the task raised, which
  leaves the loop.
\<close>

fun collect :: "nat \<Rightarrow> Task list \<Rightarrow> nat \<Rightarrow> string list
                  \<Rightarrow> (exception + string list) \<times> event list" where
  "collect len_tasks [] num_completed results = (Inr results, [])"
| "collect len_tasks (task # rest) num_completed results =
     (case task_outcome task of
        Inl e \<Rightarrow> (Inl e, task_resumed task)
      | Inr result \<Rightarrow>
          (let results' = (case result of Some r \<Rightarrow> results @ [r] | None \<Rightarrow> results);
               num_completed' = num_completed + 1;
               (final, evs) = collect len_tasks rest num_completed' results'
           in (final,
               task_resumed task
                 @ [TaskDone (task_index task), Print (tick_message num_completed' len_tasks)]
                 @ evs)))"

definition perform_searches :: "env \<Rightarrow> WebSearchPlan \<Rightarrow> (exception + string list) \<times> event list" where
  "perform_searches env search_plan =
     (let tasks = map (\<lambda>(i, item). create_task env i item) (enumerate 0 (searches search_plan));
          ev_tasks = map (\<lambda>task. TaskCreated (task_index task)) tasks
                       @ concat (map task_started tasks);
          (final, evs) = collect (length tasks) (as_completed env tasks) 0 []
      in case final of
           Inl e \<Rightarrow> (Inl e, Print ''Searching...'' # ev_tasks @ evs)
         | Inr results \<Rightarrow>
             (Inr results, Print ''Searching...'' # ev_tasks @ evs @ [Print ''Finished searching'']))"

definition writer_input :: "string \<Rightarrow> string list \<Rightarrow> string" where
  "writer_input q search_results =
     ''Original query: '' @ q @ [CHR 0x0A] @ ''Summarized search results: ''
       @ str_list search_results"

definition write_report :: "env \<Rightarrow> string \<Rightarrow> string list \<Rightarrow> (exception + ReportData) \<times> event list" where
  "write_report env q search_results =
     (let input_data = writer_input q search_results;
          (result, ev) = Runner_run_writer env input_data
      in case result of
           Inl e \<Rightarrow> (Inl e, Print ''Thinking about report...'' # ev)
         | Inr final_output \<Rightarrow>
             (Inr final_output,
              Print ''Thinking about report...'' # ev @ [Print ''Finished writing report'']))"

definition send_email :: "env \<Rightarrow> ReportData \<Rightarrow> (exception + unit) \<times> event list" where
  "send_email env report =
     (let (result, ev) = Runner_run_email env (markdown_report report)
      in case result of
           Inl e \<Rightarrow> (Inl e, Print ''Writing email...'' # ev)
         | Inr _ \<Rightarrow> (Inr (), Print ''Writing email...'' # ev @ [Print ''Email sent'']))"

text \<open>
  The body of \<open>with trace(...)\<close> in \<open>run\<close>. The result is the exception that leaves the
  generator, if any, and the events up to that point; the chunks the caller receives
  are the \<open>Yield\<close> events.
\<close>

definition view_trace :: "string \<Rightarrow> string" where
  "view_trace trace_id =
     ''View trace: https://platform.openai.com/traces/trace?trace_id='' @ trace_id"

definition run_body :: "env \<Rightarrow> string \<Rightarrow> string \<Rightarrow> exception option \<times> event list" where
  "run_body env q trace_id =
     (let ev0 = [Print (view_trace trace_id), Yield (view_trace trace_id),
                 Print ''Starting research...''];
          (planned, ev1) = plan_searches env q
      in case planned of
           Inl e \<Rightarrow> (Some e, ev0 @ ev1)
         | Inr search_plan \<Rightarrow>
             (let ev1' = ev1 @ [Yield ''Searches planned, starting to search...''];
                  (searched, ev2) = perform_searches env search_plan
              in case searched of
                   Inl e \<Rightarrow> (Some e, ev0 @ ev1' @ ev2)
                 | Inr search_results \<Rightarrow>
                     (let ev2' = ev2 @ [Yield ''Searches complete, writing report...''];
                          (written, ev3) = write_report env q search_results
                      in case written of
                           Inl e \<Rightarrow> (Some e, ev0 @ ev1' @ ev2' @ ev3)
                         | Inr report \<Rightarrow>
                             (let ev3' = ev3 @ [Yield ''Report written, sending email...''];
                                  (sent, ev4) = send_email env report
                              in case sent of
                                   Inl e \<Rightarrow> (Some e, ev0 @ ev1' @ ev2' @ ev3' @ ev4)
                                 | Inr _ \<Rightarrow>
                                     (None, ev0 @ ev1' @ ev2' @ ev3' @ ev4
                                        @ [Yield ''Email sent, research complete'',
                                           Yield (markdown_report report)])))))"

text \<open>
  \<open>run env q n\<close>, where \<open>n\<close> identifiers have been generated so far: the exception
  that leaves the generator (if any) with the events of the run, and the number of
  identifiers generated afterwards. Leaving the \<open>with\<close> block finishes the trace, also
  when an exception leaves it.
\<close>

definition run :: "env \<Rightarrow> string \<Rightarrow> nat \<Rightarrow> (exception option \<times> event list) \<times> nat" where
  "run env q n =
     (let (trace_id, n') = gen_trace_id env n;
          (raised, evs) = run_body env q trace_id
      in ((raised, TraceStart ''Research trace'' trace_id # evs @ [TraceFinish trace_id]), n'))"

section \<open>A concrete scenario\<close>

text \<open>
  Five planned searches of which the third fails, completing in the reverse of their
  creation order; the writer returns a well-formed report; the email agent calls its
  tool once and finishes; the provider answers with status 202.
\<close>

definition demo_items :: "json list" where
  "demo_items = map (\<lambda>t. JObj [(''reason'', JStr (''why '' @ t)), (''query'', JStr t)])
                  [''a'', ''b'', ''c'', ''d'', ''e'']"

definition demo_report :: json where
  "demo_report = JObj [(''short_summary'', JStr ''short''),
                       (''markdown_report'', JStr ''# Report''),
                       (''follow_up_questions'', JArr [JStr ''next?''])]"

definition demo_env :: env where
  "demo_env = \<lparr>
     planner_model = (\<lambda>inp. Inr (JObj [(''searches'', JArr demo_items)])),
     search_model = (\<lambda>i inp. if i = 2 then Inl (Exception ''timeout'')
                             else Inr (''summary '' @ str_nat i)),
     writer_model = (\<lambda>inp. Inr demo_report),
     email_model = (\<lambda>inp outs. if outs = [] then Inr (ToolCall ''Report'' (''<h1>'' @ inp @ ''</h1>''))
                                else Inr (FinalOutput ''sent'')),
     max_turns = 10,
     SENDGRID_API_KEY = Some ''key'',
     provider_status = (\<lambda>mail. 202),
     latency = (\<lambda>i. 10 - i),
     trace_ids = (\<lambda>n. ''trace_'' @ str_nat n)
   \<rparr>"

text \<open>
  A hosted model of the email agent that calls the tool again until the tool has
  returned, and the scenario with this model and a provider that answers 500.
\<close>

definition retry_model :: "string \<Rightarrow> tool_result list \<Rightarrow> exception + agent_step" where
  "retry_model inp results =
     (case rev results of
        ToolReturned out # earlier \<Rightarrow> Inr (FinalOutput ''sent'')
      | _ \<Rightarrow> Inr (ToolCall ''Report'' (''<h1>'' @ inp @ ''</h1>'')))"

definition demo_env_rejected :: env where
  "demo_env_rejected = demo_env\<lparr>provider_status := \<lambda>mail. 500, email_model := retry_model\<rparr>"

definition demo_plan :: WebSearchPlan where
  "demo_plan = \<lparr>searches = map (\<lambda>t. \<lparr>reason = ''why '' @ t, query = t\<rparr>)
                                [''a'', ''b'', ''c'', ''d'', ''e'']\<rparr>"

definition demo_malformed :: json where
  "demo_malformed = JObj [(''short_summary'', JStr ''short''),
                          (''follow_up_questions'', JArr [JStr ''next?''])]"

definition demo_report_variant :: json where
  "demo_report_variant = JObj [(''short_summary'', JStr ''another summary''),
                        (''markdown_report'', JStr ''# Report''),
                        (''follow_up_questions'', JArr [])]"

section \<open>Notions used in the statements\<close>

text \<open>
  The summaries among the outcomes of a list of tasks; the number of planned items whose
  external call raises, and the summaries of the others, both read off the environment;
  the tasks of a plan.
\<close>

definition summaries :: "Task list \<Rightarrow> string list" where
  "summaries tasks =
     concat (map (\<lambda>task. case task_outcome task of Inr (Some r) \<Rightarrow> [r] | _ \<Rightarrow> []) tasks)"

definition search_fails :: "env \<Rightarrow> nat \<times> WebSearchItem \<Rightarrow> bool" where
  "search_fails env task = isl (search_model env (fst task) (search_input (snd task)))"

definition failed_count :: "env \<Rightarrow> WebSearchPlan \<Rightarrow> nat" where
  "failed_count env search_plan =
     length (filter (search_fails env) (enumerate 0 (searches search_plan)))"

definition successful_summaries :: "env \<Rightarrow> WebSearchPlan \<Rightarrow> string list" where
  "successful_summaries env search_plan =
     concat (map (\<lambda>(i, item). case search_model env i (search_input item) of
                                 Inl e \<Rightarrow> [] | Inr out \<Rightarrow> [out])
               (enumerate 0 (searches search_plan)))"

definition plan_tasks :: "env \<Rightarrow> WebSearchPlan \<Rightarrow> Task list" where
  "plan_tasks env search_plan =
     map (\<lambda>(i, item). create_task env i item) (enumerate 0 (searches search_plan))"

text \<open>
  Events that only the dispatch loop and the resumed tasks produce; a task that does not
  raise and whose resumed part prints no progress message.
\<close>

definition local_event :: "event \<Rightarrow> bool" where
  "local_event e = (case e of Print s \<Rightarrow> True | TaskDone i \<Rightarrow> True | _ \<Rightarrow> False)"

definition quiet_task :: "Task \<Rightarrow> bool" where
  "quiet_task task \<longleftrightarrow>
     \<not> isl (task_outcome task) \<and> progress_ticks (task_resumed task) = []
     \<and> done_tasks (task_resumed task) = [] \<and> list_all local_event (task_resumed task)"

text \<open>The events of a run up to the first call of the writer agent.\<close>

definition before_writer :: "event list \<Rightarrow> event list" where
  "before_writer evs =
     takeWhile (\<lambda>e. case e of RunnerCall a inp \<Rightarrow> a \<noteq> writer_agent | _ \<Rightarrow> True) evs"

text \<open>
  The chunks of a run after the trace link, and the exception that leaves it, in terms of
  the results of the four stages.
\<close>

definition later_chunks :: "env \<Rightarrow> string \<Rightarrow> string list" where
  "later_chunks env q =
     (case fst (plan_searches env q) of
        Inl e \<Rightarrow> []
      | Inr search_plan \<Rightarrow>
          ''Searches planned, starting to search...'' #
          (case fst (perform_searches env search_plan) of
             Inl e \<Rightarrow> []
           | Inr search_results \<Rightarrow>
               ''Searches complete, writing report...'' #
               (case fst (write_report env q search_results) of
                  Inl e \<Rightarrow> []
                | Inr report \<Rightarrow>
                    ''Report written, sending email...'' #
                    (case fst (send_email env report) of
                       Inl e \<Rightarrow> []
                     | Inr u \<Rightarrow> [''Email sent, research complete'', markdown_report report]))))"

definition raised :: "env \<Rightarrow> string \<Rightarrow> exception option" where
  "raised env q =
     (case fst (plan_searches env q) of
        Inl e \<Rightarrow> Some e
      | Inr search_plan \<Rightarrow>
          (case fst (perform_searches env search_plan) of
             Inl e \<Rightarrow> Some e
           | Inr search_results \<Rightarrow>
               (case fst (write_report env q search_results) of
                  Inl e \<Rightarrow> Some e
                | Inr report \<Rightarrow>
                    (case fst (send_email env report) of
                       Inl e \<Rightarrow> Some e
                     | Inr u \<Rightarrow> None))))"

section \<open>Observations distribute over the event list\<close>

lemma chunks_simps:
  "chunks [] = []"
  "chunks (e # es) = (case e of Yield c \<Rightarrow> [c] | _ \<Rightarrow> []) @ chunks es"
  "chunks (xs @ ys) = chunks xs @ chunks ys"
  by (simp_all add: chunks_def)

lemma done_tasks_simps:
  "done_tasks [] = []"
  "done_tasks (e # es) = (case e of TaskDone i \<Rightarrow> [i] | _ \<Rightarrow> []) @ done_tasks es"
  "done_tasks (xs @ ys) = done_tasks xs @ done_tasks ys"
  by (simp_all add: done_tasks_def)

lemma created_tasks_simps:
  "created_tasks [] = []"
  "created_tasks (e # es) = (case e of TaskCreated i \<Rightarrow> [i] | _ \<Rightarrow> []) @ created_tasks es"
  "created_tasks (xs @ ys) = created_tasks xs @ created_tasks ys"
  by (simp_all add: created_tasks_def)

lemma calls_to_simps:
  "calls_to a [] = []"
  "calls_to a (e # es) =
     (case e of RunnerCall b inp \<Rightarrow> (if b = a then [inp] else []) | _ \<Rightarrow> []) @ calls_to a es"
  "calls_to a (xs @ ys) = calls_to a xs @ calls_to a ys"
  by (simp_all add: calls_to_def)

lemma mail_posts_simps:
  "mail_posts [] = []"
  "mail_posts (e # es) = (case e of MailPost k m \<Rightarrow> [m] | _ \<Rightarrow> []) @ mail_posts es"
  "mail_posts (xs @ ys) = mail_posts xs @ mail_posts ys"
  by (simp_all add: mail_posts_def)

lemma progress_ticks_simps:
  "progress_ticks [] = []"
  "progress_ticks (e # es) =
     (case e of Print s \<Rightarrow> (if take 13 s = ''Searching... '' then [s] else []) | _ \<Rightarrow> [])
       @ progress_ticks es"
  "progress_ticks (xs @ ys) = progress_ticks xs @ progress_ticks ys"
  by (simp_all add: progress_ticks_def)

section \<open>The dispatch loop\<close>


lemma create_task_sel:
  "task_index (create_task env i item) = i"
  "task_outcome (create_task env i item) =
     Inr (case search_model env i (search_input item) of Inl e \<Rightarrow> None | Inr out \<Rightarrow> Some out)"
  "task_started (create_task env i item) = [RunnerCall search_agent (search_input item)]"
  by (cases "search_model env i (search_input item)";
      simp add: create_task_def search_def Runner_run_search_def Let_def)+

lemma create_task_quiet: "quiet_task (create_task env i item)"
  by (cases "search_model env i (search_input item)")
     (simp_all add: quiet_task_def create_task_def search_def Runner_run_search_def
      progress_ticks_simps done_tasks_simps local_event_def Let_def)

lemma collect_results:
  "\<forall>t \<in> set tasks. quiet_task t \<Longrightarrow> fst (collect n tasks c acc) = Inr (acc @ summaries tasks)"
proof (induction tasks arbitrary: c acc)
  case Nil
  show ?case by (simp add: summaries_def)
next
  case (Cons t ts)
  then obtain r where r: "task_outcome t = Inr r"
    by (cases "task_outcome t") (auto simp: quiet_task_def)
  from Cons have ih: "\<And>c acc. fst (collect n ts c acc) = Inr (acc @ summaries ts)"
    by simp
  show ?case using r ih
    by (cases r) (simp_all add: summaries_def split_beta)
qed


lemma collect_done:
  "\<forall>t \<in> set tasks. quiet_task t \<Longrightarrow>
   done_tasks (snd (collect n tasks c acc)) = map task_index tasks"
proof (induction tasks arbitrary: c acc)
  case Nil
  show ?case by (simp add: done_tasks_simps)
next
  case (Cons t ts)
  then obtain r where r: "task_outcome t = Inr r"
    by (cases "task_outcome t") (auto simp: quiet_task_def)
  from Cons have q: "done_tasks (task_resumed t) = []"
    by (simp add: quiet_task_def)
  from Cons have ih: "\<And>c acc. done_tasks (snd (collect n ts c acc)) = map task_index ts"
    by simp
  show ?case using r ih q by (simp add: split_beta Let_def done_tasks_simps)
qed

lemma plan_tasks_quiet: "\<forall>t \<in> set (plan_tasks env search_plan). quiet_task t"
  by (auto simp: plan_tasks_def create_task_quiet)

lemma as_completed_quiet:
  "\<forall>t \<in> set (as_completed env (plan_tasks env' search_plan)). quiet_task t"
  by (simp add: as_completed_def plan_tasks_quiet)

lemma length_plan_tasks: "length (plan_tasks env search_plan) = length (searches search_plan)"
  by (simp add: plan_tasks_def)

lemma plan_tasks_index:
  "map task_index (plan_tasks env search_plan) = [0 ..< length (searches search_plan)]"
proof -
  have "map task_index (plan_tasks env search_plan) = map fst (enumerate 0 (searches search_plan))"
    by (simp add: plan_tasks_def split_beta create_task_sel comp_def)
  then show ?thesis by simp
qed

lemma perform_searches_result:
  "fst (perform_searches env search_plan) =
     Inr (summaries (as_completed env (plan_tasks env search_plan)))"
proof -
  have "fst (collect (length (plan_tasks env search_plan))
               (as_completed env (plan_tasks env search_plan)) 0 [])
        = Inr (summaries (as_completed env (plan_tasks env search_plan)))"
    using collect_results [OF as_completed_quiet] by simp
  then show ?thesis
    by (simp add: perform_searches_def plan_tasks_def [symmetric] Let_def split_beta)
qed

lemma mset_summaries: "mset xs = mset ys \<Longrightarrow> mset (summaries xs) = mset (summaries ys)"
proof -
  assume "mset xs = mset ys"
  then have "mset (map f xs) = mset (map f ys)" for f :: "Task \<Rightarrow> string multiset"
    by simp
  then have "sum_mset (mset (map f xs)) = sum_mset (mset (map f ys))"
    for f :: "Task \<Rightarrow> string multiset"
    by (rule arg_cong)
  then have "sum_list (map f xs) = sum_list (map f ys)" for f :: "Task \<Rightarrow> string multiset"
    by (simp only: sum_mset_sum_list)
  then show ?thesis
    by (simp add: summaries_def mset_concat comp_def)
qed

lemma local_events_silent:
  "list_all local_event evs \<Longrightarrow>
   chunks evs = [] \<and> calls_to a evs = [] \<and> created_tasks evs = [] \<and> mail_posts evs = []"
  by (induction evs)
     (auto simp: local_event_def chunks_simps calls_to_simps created_tasks_simps mail_posts_simps
           split: event.splits)

lemma collect_local:
  "\<forall>t \<in> set tasks. quiet_task t \<Longrightarrow> list_all local_event (snd (collect n tasks c acc))"
proof (induction tasks arbitrary: c acc)
  case Nil
  show ?case by simp
next
  case (Cons t ts)
  then obtain r where r: "task_outcome t = Inr r"
    by (cases "task_outcome t") (auto simp: quiet_task_def)
  from Cons have q: "list_all local_event (task_resumed t)"
    by (simp add: quiet_task_def)
  from Cons have ih: "\<And>c acc. list_all local_event (snd (collect n ts c acc))"
    by simp
  have "local_event (TaskDone i)" "local_event (Print s)" for i s
    by (simp_all add: local_event_def)
  then show ?case using r ih q by (simp add: split_beta Let_def)
qed

lemma summaries_length:
  "\<forall>t \<in> set tasks. quiet_task t \<Longrightarrow>
   length (summaries tasks) + length (filter (\<lambda>t. task_outcome t = Inr None) tasks) = length tasks"
proof (induction tasks)
  case Nil
  show ?case by (simp add: summaries_def)
next
  case (Cons t ts)
  then obtain r where r: "task_outcome t = Inr r"
    by (cases "task_outcome t") (auto simp: quiet_task_def)
  from Cons have "length (summaries ts) + length (filter (\<lambda>t. task_outcome t = Inr None) ts) = length ts"
    by simp
  then show ?case using r by (cases r) (simp_all add: summaries_def)
qed

lemma filter_as_completed:
  "length (filter P (as_completed env tasks)) = length (filter P tasks)"
proof -
  have "mset (filter P (as_completed env tasks)) = mset (filter P tasks)"
    by (simp add: as_completed_def)
  then show ?thesis by (rule mset_eq_length)
qed

lemma plan_tasks_failed:
  "length (filter (\<lambda>t. task_outcome t = Inr None) (plan_tasks env search_plan))
     = failed_count env search_plan"
proof -
  have "(\<lambda>t. task_outcome t = Inr None) \<circ> (\<lambda>(i, item). create_task env i item) = search_fails env"
    by (auto simp: fun_eq_iff create_task_sel search_fails_def split: sum.splits)
  then show ?thesis
    by (simp add: plan_tasks_def failed_count_def filter_map)
qed

lemma perform_searches_events:
  "snd (perform_searches env search_plan) =
     Print ''Searching...''
       # map TaskCreated [0 ..< length (searches search_plan)]
       @ map (\<lambda>item. RunnerCall search_agent (search_input item)) (searches search_plan)
       @ snd (collect (length (searches search_plan))
                (as_completed env (plan_tasks env search_plan)) 0 [])
       @ [Print ''Finished searching'']"
proof -
  let ?tasks = "plan_tasks env search_plan"
  have res: "fst (collect (length ?tasks) (as_completed env ?tasks) 0 [])
        = Inr (summaries (as_completed env ?tasks))"
    using collect_results [OF as_completed_quiet] by simp
  have created: "map (\<lambda>task. TaskCreated (task_index task)) ?tasks
        = map TaskCreated [0 ..< length (searches search_plan)]"
  proof -
    have "map (\<lambda>task. TaskCreated (task_index task)) ?tasks
            = map TaskCreated (map task_index ?tasks)"
      by simp
    then show ?thesis by (simp only: plan_tasks_index)
  qed
  have "map task_started ?tasks
        = map ((\<lambda>item. [RunnerCall search_agent (search_input item)]) \<circ> snd)
            (enumerate 0 (searches search_plan))"
    by (simp add: plan_tasks_def split_beta create_task_sel comp_def)
  also have "\<dots> = map (\<lambda>item. [RunnerCall search_agent (search_input item)])
                     (map snd (enumerate 0 (searches search_plan)))"
    by (simp only: map_map)
  finally have "map task_started ?tasks
        = map (\<lambda>item. [RunnerCall search_agent (search_input item)]) (searches search_plan)"
    by (simp only: map_snd_enumerate)
  then have started: "concat (map task_started ?tasks)
        = map (\<lambda>item. RunnerCall search_agent (search_input item)) (searches search_plan)"
    by (simp add: comp_def concat_map_singleton)
  show ?thesis
    using res created started
    by (simp add: perform_searches_def plan_tasks_def [symmetric] Let_def split_beta length_plan_tasks)
qed

lemma silent_created:
  "progress_ticks (map TaskCreated is) = []"
  "done_tasks (map TaskCreated is) = []"
  "created_tasks (map TaskCreated is) = is"
  "calls_to b (map TaskCreated is) = []"
  "chunks (map TaskCreated is) = []"
  "mail_posts (map TaskCreated is) = []"
  by (induction "is"; simp add: progress_ticks_simps done_tasks_simps created_tasks_simps
        calls_to_simps chunks_simps mail_posts_simps)+

lemma silent_calls:
  "progress_ticks (map (\<lambda>item. RunnerCall a (f item)) items) = []"
  "done_tasks (map (\<lambda>item. RunnerCall a (f item)) items) = []"
  "created_tasks (map (\<lambda>item. RunnerCall a (f item)) items) = []"
  "calls_to a (map (\<lambda>item. RunnerCall a (f item)) items) = map f items"
  "chunks (map (\<lambda>item. RunnerCall a (f item)) items) = []"
  "mail_posts (map (\<lambda>item. RunnerCall a (f item)) items) = []"
  by (induction items; simp add: progress_ticks_simps done_tasks_simps created_tasks_simps
        calls_to_simps chunks_simps mail_posts_simps)+

section \<open>Results of the dispatch\<close>

lemma summaries_plan_tasks:
  "summaries (plan_tasks env search_plan) = successful_summaries env search_plan"
proof -
  have "(\<lambda>task. case task_outcome task of Inr (Some r) \<Rightarrow> [r] | _ \<Rightarrow> []) \<circ> (\<lambda>(i, item). create_task env i item)
        = (\<lambda>(i, item). case search_model env i (search_input item) of Inl e \<Rightarrow> [] | Inr out \<Rightarrow> [out])"
    by (auto simp: fun_eq_iff create_task_sel split: sum.splits)
  then show ?thesis
    by (simp add: summaries_def plan_tasks_def successful_summaries_def)
qed

lemma mset_perform_searches:
  "mset (summaries (as_completed env (plan_tasks env' search_plan)))
     = mset (successful_summaries env' search_plan)"
proof -
  have "mset (as_completed env (plan_tasks env' search_plan)) = mset (plan_tasks env' search_plan)"
    by (simp add: as_completed_def)
  then have "mset (summaries (as_completed env (plan_tasks env' search_plan)))
               = mset (summaries (plan_tasks env' search_plan))"
    by (rule mset_summaries)
  then show ?thesis by (simp only: summaries_plan_tasks)
qed

lemma plan_tasks_latency: "plan_tasks (env\<lparr>latency := l\<rparr>) search_plan = plan_tasks env search_plan"
  by (simp add: plan_tasks_def create_task_def search_def Runner_run_search_def)

lemma successful_summaries_latency:
  "successful_summaries (env\<lparr>latency := l\<rparr>) search_plan = successful_summaries env search_plan"
  by (simp add: successful_summaries_def)

lemma validate_item:
  "validate_WebSearchItem (JObj [(''reason'', JStr (reason item)), (''query'', JStr (query item))])
     = Inr (item :: WebSearchItem)"
  by (simp add: validate_WebSearchItem_def str_field_def)

lemma validate_items:
  "all_valid (map (validate_WebSearchItem \<circ>
      (\<lambda>item. JObj [(''reason'', JStr (reason item)), (''query'', JStr (query item))])) items)
   = Inr (items :: WebSearchItem list)"
  by (induction items) (simp_all add: validate_item)

lemma summaries_count:
  "length (summaries (as_completed env (plan_tasks env search_plan)))
     + failed_count env search_plan = length (searches search_plan)"
proof -
  let ?tasks = "as_completed env (plan_tasks env search_plan)"
  have len: "length ?tasks = length (searches search_plan)"
    by (simp add: as_completed_def length_plan_tasks)
  have "length (summaries ?tasks) + length (filter (\<lambda>t. task_outcome t = Inr None) ?tasks)
          = length ?tasks"
    by (rule summaries_length [OF as_completed_quiet])
  then show ?thesis
    by (simp only: filter_as_completed plan_tasks_failed len)
qed

lemma perform_searches_length:
  "fst (perform_searches env search_plan) = Inr search_results \<Longrightarrow>
   length search_results + failed_count env search_plan = length (searches search_plan)"
  using summaries_count [of env search_plan] by (simp add: perform_searches_result)

lemma perform_searches_done:
  "mset (done_tasks (snd (perform_searches env search_plan)))
     = mset [0 ..< length (searches search_plan)]"
proof -
  let ?n = "length (searches search_plan)"
  let ?tasks = "as_completed env (plan_tasks env search_plan)"
  have "done_tasks (snd (collect ?n ?tasks 0 [])) = map task_index ?tasks"
    by (rule collect_done [OF as_completed_quiet])
  then have d: "done_tasks (snd (perform_searches env search_plan)) = map task_index ?tasks"
    by (simp only: perform_searches_events done_tasks_simps silent_created silent_calls) simp
  have "mset (map task_index ?tasks) = mset (map task_index (plan_tasks env search_plan))"
    by (simp add: as_completed_def)
  then show ?thesis by (simp only: d plan_tasks_index)
qed

section \<open>Events of the stages\<close>

lemma silent_other_calls:
  "a \<noteq> b \<Longrightarrow> calls_to b (map (\<lambda>item. RunnerCall a (f item)) items) = []"
  by (induction items) (simp_all add: calls_to_simps)

lemma plan_searches_obs:
  "chunks (snd (plan_searches env q)) = []"
  "done_tasks (snd (plan_searches env q)) = []"
  "calls_to writer_agent (snd (plan_searches env q)) = []"
  "calls_to email_agent (snd (plan_searches env q)) = []"
  "mail_posts (snd (plan_searches env q)) = []"
  by (simp_all add: plan_searches_def Runner_run_planner_def chunks_simps done_tasks_simps
      calls_to_simps mail_posts_simps split: sum.splits)

lemma perform_searches_obs:
  "chunks (snd (perform_searches env search_plan)) = []"
  "calls_to writer_agent (snd (perform_searches env search_plan)) = []"
  "calls_to email_agent (snd (perform_searches env search_plan)) = []"
  "mail_posts (snd (perform_searches env search_plan)) = []"
proof -
  let ?evs = "snd (collect (length (searches search_plan))
                    (as_completed env (plan_tasks env search_plan)) 0 [])"
  have "list_all local_event ?evs"
    by (rule collect_local [OF as_completed_quiet])
  then have silent: "chunks ?evs = []" "calls_to writer_agent ?evs = []"
      "calls_to email_agent ?evs = []" "mail_posts ?evs = []"
    using local_events_silent by blast+
  show "chunks (snd (perform_searches env search_plan)) = []"
    by (simp only: perform_searches_events chunks_simps silent_created silent_calls silent) simp
  show "calls_to writer_agent (snd (perform_searches env search_plan)) = []"
    by (simp only: perform_searches_events calls_to_simps silent_created silent silent_other_calls)
       (simp add: silent_other_calls)
  show "calls_to email_agent (snd (perform_searches env search_plan)) = []"
    by (simp only: perform_searches_events calls_to_simps silent_created silent)
       (simp add: silent_other_calls)
  show "mail_posts (snd (perform_searches env search_plan)) = []"
    by (simp only: perform_searches_events mail_posts_simps silent_created silent_calls silent) simp
qed

lemma write_report_events:
  "snd (write_report env q search_results) =
     Print ''Thinking about report...'' # RunnerCall writer_agent (writer_input q search_results)
       # (case fst (write_report env q search_results) of
            Inl e \<Rightarrow> [] | Inr report \<Rightarrow> [Print ''Finished writing report''])"
  by (simp add: write_report_def Runner_run_writer_def Let_def split: sum.splits)

lemma write_report_result:
  "fst (write_report env q search_results) =
     (case writer_model env (writer_input q search_results) of
        Inl e \<Rightarrow> Inl e | Inr j \<Rightarrow> validate_ReportData j)"
  by (simp add: write_report_def Runner_run_writer_def Let_def split: sum.splits)

lemma write_report_obs:
  "chunks (snd (write_report env q search_results)) = []"
  "calls_to email_agent (snd (write_report env q search_results)) = []"
  "mail_posts (snd (write_report env q search_results)) = []"
  by (simp_all add: write_report_events chunks_simps calls_to_simps mail_posts_simps
      split: sum.splits)

lemma function_tool_obs:
  "chunks (snd (function_tool_send_email env subj html_body)) = []"
  "calls_to a (snd (function_tool_send_email env subj html_body)) = []"
  "done_tasks (snd (function_tool_send_email env subj html_body)) = []"
  by (simp_all add: function_tool_send_email_def send_email_tool_def Let_def split_beta
      chunks_simps calls_to_simps done_tasks_simps split: sum.splits)

lemma email_turns_obs:
  "chunks (snd (email_turns env t inp outs)) = []
   \<and> calls_to a (snd (email_turns env t inp outs)) = []
   \<and> done_tasks (snd (email_turns env t inp outs)) = []"
proof (induction t arbitrary: outs)
  case 0
  show ?case by (simp add: chunks_simps calls_to_simps done_tasks_simps)
next
  case (Suc t)
  show ?case
  proof (cases "email_model env inp outs")
    case (Inl e)
    then show ?thesis by (simp add: chunks_simps calls_to_simps done_tasks_simps)
  next
    case (Inr step)
    then show ?thesis using Suc
      by (cases step)
         (simp_all add: split_beta chunks_simps calls_to_simps done_tasks_simps function_tool_obs)
  qed
qed

lemma send_email_result:
  "fst (send_email env report) =
     (case fst (Runner_run_email env (markdown_report report)) of
        Inl e \<Rightarrow> Inl e | Inr out \<Rightarrow> Inr ())"
  by (simp add: send_email_def split_beta split: sum.splits)

lemma send_email_obs:
  "chunks (snd (send_email env report)) = []"
  "calls_to email_agent (snd (send_email env report)) = [markdown_report report]"
  by (simp_all add: send_email_def Runner_run_email_def split_beta chunks_simps calls_to_simps
      email_turns_obs split: sum.splits)

section \<open>The run\<close>

lemma run_body_chunks:
  "chunks (snd (run_body env q trace_id)) = view_trace trace_id # later_chunks env q"
  by (simp add: run_body_def later_chunks_def split_beta Let_def chunks_simps
      plan_searches_obs perform_searches_obs write_report_obs send_email_obs split: sum.splits)

lemma run_body_raised: "fst (run_body env q trace_id) = raised env q"
  by (simp add: run_body_def raised_def split_beta Let_def split: sum.splits)

lemma run_chunks:
  "chunks (snd (fst (run env q n))) = view_trace (trace_ids env n) # later_chunks env q"
  by (simp add: run_def gen_trace_id_def split_beta chunks_simps run_body_chunks)

lemma run_raised: "fst (fst (run env q n)) = raised env q"
  by (simp add: run_def gen_trace_id_def split_beta run_body_raised)

lemma run_next: "snd (run env q n) = Suc n"
  by (simp add: run_def gen_trace_id_def split_beta)

lemma run_events:
  "snd (fst (run env q n)) =
     TraceStart ''Research trace'' (trace_ids env n) # snd (run_body env q (trace_ids env n))
       @ [TraceFinish (trace_ids env n)]"
  by (simp add: run_def gen_trace_id_def split_beta)

lemma run_body_done:
  assumes "fst (plan_searches env q) = Inr search_plan"
    and "fst (perform_searches env search_plan) = Inr search_results"
    and "fst (write_report env q search_results) = Inr report"
    and "fst (send_email env report) = Inr u"
  shows "snd (run_body env q trace_id) =
     [Print (view_trace trace_id), Yield (view_trace trace_id), Print ''Starting research...'']
       @ snd (plan_searches env q) @ [Yield ''Searches planned, starting to search...'']
       @ snd (perform_searches env search_plan) @ [Yield ''Searches complete, writing report...'']
       @ snd (write_report env q search_results) @ [Yield ''Report written, sending email...'']
       @ snd (send_email env report)
       @ [Yield ''Email sent, research complete'', Yield (markdown_report report)]"
  using assms by (simp add: run_body_def split_beta Let_def)

lemma run_body_write_failed:
  assumes "fst (plan_searches env q) = Inr search_plan"
    and "fst (perform_searches env search_plan) = Inr search_results"
    and "fst (write_report env q search_results) = Inl e"
  shows "snd (run_body env q trace_id) =
     [Print (view_trace trace_id), Yield (view_trace trace_id), Print ''Starting research...'']
       @ snd (plan_searches env q) @ [Yield ''Searches planned, starting to search...'']
       @ snd (perform_searches env search_plan) @ [Yield ''Searches complete, writing report...'']
       @ snd (write_report env q search_results)"
  using assms by (simp add: run_body_def split_beta Let_def)

lemma run_body_planned:
  assumes "fst (plan_searches env q) = Inr search_plan"
    and "fst (perform_searches env search_plan) = Inr search_results"
  shows "\<exists>rest. snd (run_body env q trace_id) =
     [Print (view_trace trace_id), Yield (view_trace trace_id), Print ''Starting research...'']
       @ snd (plan_searches env q) @ [Yield ''Searches planned, starting to search...'']
       @ snd (perform_searches env search_plan)
       @ [Yield ''Searches complete, writing report...'', Print ''Thinking about report...'',
          RunnerCall writer_agent (writer_input q search_results)] @ rest"
  using assms
  by (simp add: run_body_def split_beta Let_def write_report_events split: sum.splits)

section \<open>The concrete scenario, evaluated\<close>

lemma demo_planned:
  "fst (plan_searches demo_env ''Impact of AI on Healthcare'') = Inr demo_plan"
  by code_simp

lemma demo_searched:
  "fst (perform_searches demo_env demo_plan)
     = Inr [''summary 4'', ''summary 3'', ''summary 1'', ''summary 0'']"
  by code_simp

lemma demo_failed: "failed_count demo_env demo_plan = 1"
  by code_simp

lemma demo_written:
  "fst (write_report demo_env ''Impact of AI on Healthcare''
          [''summary 4'', ''summary 3'', ''summary 1'', ''summary 0''])
     = Inr \<lparr>short_summary = ''short'', markdown_report = ''# Report'',
            follow_up_questions = [''next?'']\<rparr>"
  by code_simp

lemma demo_sent:
  "fst (send_email demo_env \<lparr>short_summary = ''short'', markdown_report = ''# Report'',
            follow_up_questions = [''next?'']\<rparr>) = Inr ()"
  by code_simp

section \<open>Validation and the events before the writer\<close>

lemma map_of_removed: "map_of (filter (\<lambda>(k, v). k \<noteq> x) fs) x = None"
  by (induction fs) auto

lemma validate_without_markdown:
  "validate_ReportData (JObj (filter (\<lambda>(k, v). k \<noteq> ''markdown_report'') fs))
     = Inl (validation_error ''ReportData'')"
  by (simp add: validate_ReportData_def str_field_def map_of_removed split: option.splits)

lemma no_calls_iff:
  "calls_to a evs = [] \<longleftrightarrow>
     (\<forall>e \<in> set evs. case e of RunnerCall b inp \<Rightarrow> b \<noteq> a | _ \<Rightarrow> True)"
  by (induction evs) (auto simp: calls_to_simps split: event.splits)

lemma before_writer_prefix:
  assumes "calls_to writer_agent pre = []"
  shows "before_writer (pre @ RunnerCall writer_agent inp # rest) = pre"
proof -
  let ?P = "\<lambda>e. case e of RunnerCall a inp \<Rightarrow> a \<noteq> writer_agent | _ \<Rightarrow> True"
  from assms have all: "\<forall>e \<in> set pre. ?P e"
    by (simp add: no_calls_iff)
  have "\<not> ?P (RunnerCall writer_agent inp)" by simp
  then have "takeWhile ?P (pre @ RunnerCall writer_agent inp # rest) = takeWhile ?P pre"
    by (rule takeWhile_tail)
  also have "\<dots> = pre" using all by (simp add: takeWhile_eq_all_conv)
  finally show ?thesis by (simp add: before_writer_def)
qed

lemma writer_calls_obs:
  "calls_to writer_agent (snd (write_report env q search_results))
     = [writer_input q search_results]"
  "calls_to writer_agent (snd (send_email env report)) = []"
  by (simp_all add: write_report_events send_email_def Runner_run_email_def split_beta
      calls_to_simps email_turns_obs split: sum.splits)

lemma run_writer_calls:
  assumes "fst (plan_searches env q) = Inr search_plan"
    and "fst (perform_searches env search_plan) = Inr search_results"
  shows "calls_to writer_agent (snd (fst (run env q n))) = [writer_input q search_results]"
  using assms
  by (simp add: run_events run_body_def split_beta Let_def calls_to_simps plan_searches_obs
      perform_searches_obs writer_calls_obs split: sum.splits)

section \<open>Independence of the writer\<close>

lemma function_tool_writer:
  "function_tool_send_email (env\<lparr>writer_model := w\<rparr>) subj html_body
     = function_tool_send_email env subj html_body"
  by (simp add: function_tool_send_email_def send_email_tool_def sendgrid_post_def Let_def)

lemma email_turns_writer:
  "email_turns (env\<lparr>writer_model := w\<rparr>) t inp outs = email_turns env t inp outs"
proof (induction t arbitrary: outs)
  case 0
  show ?case by simp
next
  case (Suc t)
  show ?case
  proof (cases "email_model env inp outs")
    case (Inl e)
    then show ?thesis by simp
  next
    case (Inr step)
    then show ?thesis using Suc
      by (cases step) (simp_all add: function_tool_writer)
  qed
qed

lemma stages_writer:
  "plan_searches (env\<lparr>writer_model := w\<rparr>) q = plan_searches env q"
  "perform_searches (env\<lparr>writer_model := w\<rparr>) search_plan = perform_searches env search_plan"
  "send_email (env\<lparr>writer_model := w\<rparr>) report = send_email env report"
  by (simp_all add: plan_searches_def Runner_run_planner_def perform_searches_def as_completed_def
      create_task_def search_def Runner_run_search_def send_email_def Runner_run_email_def
      email_turns_writer)

lemma send_email_markdown:
  "markdown_report r1 = markdown_report r2 \<Longrightarrow> send_email env r1 = send_email env r2"
  by (simp add: send_email_def)

lemma write_report_eq:
  "write_report env q search_results =
     (fst (Runner_run_writer env (writer_input q search_results)),
      Print ''Thinking about report...'' # RunnerCall writer_agent (writer_input q search_results)
        # (case fst (Runner_run_writer env (writer_input q search_results)) of
             Inl e \<Rightarrow> [] | Inr report \<Rightarrow> [Print ''Finished writing report'']))"
  by (simp add: write_report_def Runner_run_writer_def Let_def split: sum.splits)

lemma run_body_writer:
  assumes h: "\<forall>inp. map_sum id markdown_report (fst (Runner_run_writer (env\<lparr>writer_model := w1\<rparr>) inp))
              = map_sum id markdown_report (fst (Runner_run_writer (env\<lparr>writer_model := w2\<rparr>) inp))"
  shows "run_body (env\<lparr>writer_model := w1\<rparr>) q trace_id
           = run_body (env\<lparr>writer_model := w2\<rparr>) q trace_id"
proof (cases "fst (plan_searches env q)")
  case (Inl e)
  then show ?thesis
    by (simp add: run_body_def split_beta Let_def stages_writer)
next
  case planned: (Inr search_plan)
  show ?thesis
  proof (cases "fst (perform_searches env search_plan)")
    case (Inl e)
    with planned show ?thesis
      by (simp add: run_body_def split_beta Let_def stages_writer)
  next
    case searched: (Inr search_results)
    let ?a = "fst (Runner_run_writer (env\<lparr>writer_model := w1\<rparr>) (writer_input q search_results))"
    let ?b = "fst (Runner_run_writer (env\<lparr>writer_model := w2\<rparr>) (writer_input q search_results))"
    from h have ab: "map_sum id markdown_report ?a = map_sum id markdown_report ?b"
      by blast
    show ?thesis
    proof (cases ?a)
      case a: (Inl e)
      with ab have b: "?b = Inl e" by (cases ?b) simp_all
      from planned searched a b show ?thesis
        by (simp add: run_body_def split_beta Let_def stages_writer write_report_eq)
    next
      case a: (Inr r1)
      with ab obtain r2 where b: "?b = Inr r2" and m: "markdown_report r1 = markdown_report r2"
        by (cases ?b) simp_all
      from m have "send_email env r1 = send_email env r2"
        by (rule send_email_markdown)
      with planned searched a b m show ?thesis
        by (simp add: run_body_def split_beta Let_def stages_writer write_report_eq
            split: sum.splits)
    qed
  qed
qed

section \<open>The claims\<close>


text \<open>
  C2. As stated the claim fails: the provider's client raises on a status that is not
  2xx, so \<open>send_email\<close> raises before its \<open>print\<close> and its \<open>return\<close>, the email
  agent is told an error instead of \<open>{"status": "success"}\<close>, and whether the run gets
  past the notify step depends on what the agent's hosted model does with that error.
  What holds: on a 2xx status the tool posts the mail, prints the status and returns
  \<open>{"status": "success"}\<close>; on any other status it posts the mail and raises, and the
  agent is told the error; and whatever the provider answers, a run whose planning,
  searching and writing succeed and whose email agent run finishes raises nothing and
  yields all six chunks, the last being the report.
\<close>

theorem provider_status_handling:
  "send_email_tool env subj html_body =
     (let mail = \<lparr>from_email = ''ish.mishra03@gmail.com'', to_email = ''ish.mishra03@gmail.com'',
                  subject = subj, content_type = ''text/html'', content_value = html_body\<rparr>;
          status_code = provider_status env mail
      in if 200 \<le> status_code \<and> status_code < 300
         then (Inr [(''status'', ''success'')],
               [MailPost (SENDGRID_API_KEY env) mail,
                Print (''Email response status: '' @ str_int status_code)])
         else (Inl (http_error status_code), [MailPost (SENDGRID_API_KEY env) mail]))
   \<and> fst (function_tool_send_email env subj html_body) =
     (let mail = \<lparr>from_email = ''ish.mishra03@gmail.com'', to_email = ''ish.mishra03@gmail.com'',
                  subject = subj, content_type = ''text/html'', content_value = html_body\<rparr>;
          status_code = provider_status env mail
      in if 200 \<le> status_code \<and> status_code < 300
         then ToolReturned [(''status'', ''success'')]
         else ToolError (''An error occurred while running the tool. Please try again. Error: ''
                          @ str_exception (http_error status_code)))
   \<and> (fst (plan_searches env q) = Inr search_plan
        \<and> fst (perform_searches env search_plan) = Inr search_results
        \<and> fst (write_report env q search_results) = Inr report
        \<and> fst (Runner_run_email env (markdown_report report)) = Inr out
      \<longrightarrow> fst (fst (run env q n)) = None
          \<and> chunks (snd (fst (run env q n))) =
              [view_trace (trace_ids env n), ''Searches planned, starting to search...'',
               ''Searches complete, writing report...'', ''Report written, sending email...'',
               ''Email sent, research complete'', markdown_report report])"
proof -
  have a: "send_email_tool env subj html_body =
     (let mail = \<lparr>from_email = ''ish.mishra03@gmail.com'', to_email = ''ish.mishra03@gmail.com'',
                  subject = subj, content_type = ''text/html'', content_value = html_body\<rparr>;
          status_code = provider_status env mail
      in if 200 \<le> status_code \<and> status_code < 300
         then (Inr [(''status'', ''success'')],
               [MailPost (SENDGRID_API_KEY env) mail,
                Print (''Email response status: '' @ str_int status_code)])
         else (Inl (http_error status_code), [MailPost (SENDGRID_API_KEY env) mail]))"
    by (simp add: send_email_tool_def sendgrid_post_def Let_def)
  have b: "fst (function_tool_send_email env subj html_body) =
     (let mail = \<lparr>from_email = ''ish.mishra03@gmail.com'', to_email = ''ish.mishra03@gmail.com'',
                  subject = subj, content_type = ''text/html'', content_value = html_body\<rparr>;
          status_code = provider_status env mail
      in if 200 \<le> status_code \<and> status_code < 300
         then ToolReturned [(''status'', ''success'')]
         else ToolError (''An error occurred while running the tool. Please try again. Error: ''
                          @ str_exception (http_error status_code)))"
    by (simp add: function_tool_send_email_def send_email_tool_def sendgrid_post_def Let_def)
  have c: "fst (fst (run env q n)) = None
          \<and> chunks (snd (fst (run env q n))) =
              [view_trace (trace_ids env n), ''Searches planned, starting to search...'',
               ''Searches complete, writing report...'', ''Report written, sending email...'',
               ''Email sent, research complete'', markdown_report report]"
    if "fst (plan_searches env q) = Inr search_plan"
      and "fst (perform_searches env search_plan) = Inr search_results"
      and "fst (write_report env q search_results) = Inr report"
      and "fst (Runner_run_email env (markdown_report report)) = Inr out"
    using that by (simp add: run_raised raised_def run_chunks later_chunks_def send_email_result)
  from a b c show ?thesis by blast
qed

text \<open>
  C2, an instance: the provider answers 500, the tool raises, the agent of the concrete
  scenario finishes all the same, and the run yields its six chunks.
\<close>

theorem provider_status_handling_witness:
  "send_email_tool (demo_env\<lparr>provider_status := \<lambda>mail. 500\<rparr>) ''Report'' ''<h1># Report</h1>''
     = (Inl (http_error 500),
        [MailPost (Some ''key'')
           \<lparr>from_email = ''ish.mishra03@gmail.com'', to_email = ''ish.mishra03@gmail.com'',
            subject = ''Report'', content_type = ''text/html'',
            content_value = ''<h1># Report</h1>''\<rparr>])
   \<and> fst (fst (run (demo_env\<lparr>provider_status := \<lambda>mail. 500\<rparr>)
                  ''Impact of AI on Healthcare'' 0)) = None
   \<and> chunks (snd (fst (run (demo_env\<lparr>provider_status := \<lambda>mail. 500\<rparr>)
                          ''Impact of AI on Healthcare'' 0))) =
       [''View trace: https://platform.openai.com/traces/trace?trace_id=trace_0'',
        ''Searches planned, starting to search...'', ''Searches complete, writing report...'',
        ''Report written, sending email...'', ''Email sent, research complete'', ''# Report'']"
proof -
  let ?env = "demo_env\<lparr>provider_status := \<lambda>mail. 500\<rparr>"
  let ?report = "\<lparr>short_summary = ''short'', markdown_report = ''# Report'',
                  follow_up_questions = [''next?'']\<rparr>"
  have p: "fst (plan_searches ?env ''Impact of AI on Healthcare'') = Inr demo_plan"
    by code_simp
  have s: "fst (perform_searches ?env demo_plan)
             = Inr [''summary 4'', ''summary 3'', ''summary 1'', ''summary 0'']"
    by code_simp
  have w: "fst (write_report ?env ''Impact of AI on Healthcare''
                  [''summary 4'', ''summary 3'', ''summary 1'', ''summary 0'']) = Inr ?report"
    by code_simp
  have e: "fst (Runner_run_email ?env (markdown_report ?report)) = Inr ''sent''"
    by code_simp
  have t: "view_trace (trace_ids ?env 0)
             = ''View trace: https://platform.openai.com/traces/trace?trace_id=trace_0''"
    by code_simp
  have k: "SENDGRID_API_KEY ?env = Some ''key''" "provider_status ?env = (\<lambda>mail. 500)"
    by (simp_all add: demo_env_def)
  note handling = provider_status_handling [of ?env "''Report''" "''<h1># Report</h1>''"
      "''Impact of AI on Healthcare''" demo_plan
      "[''summary 4'', ''summary 3'', ''summary 1'', ''summary 0'']" ?report "''sent''" 0]
  from handling have tool: "send_email_tool ?env ''Report'' ''<h1># Report</h1>''
     = (Inl (http_error 500),
        [MailPost (Some ''key'')
           \<lparr>from_email = ''ish.mishra03@gmail.com'', to_email = ''ish.mishra03@gmail.com'',
            subject = ''Report'', content_type = ''text/html'',
            content_value = ''<h1># Report</h1>''\<rparr>])"
    by (simp add: k Let_def)
  from handling p s w e have "fst (fst (run ?env ''Impact of AI on Healthcare'' 0)) = None
     \<and> chunks (snd (fst (run ?env ''Impact of AI on Healthcare'' 0))) =
         [view_trace (trace_ids ?env 0), ''Searches planned, starting to search...'',
          ''Searches complete, writing report...'', ''Report written, sending email...'',
          ''Email sent, research complete'', markdown_report ?report]"
    by blast
  with tool t show ?thesis by simp
qed

text \<open>
  C2, the failing instance: the provider answers 500 and the agent's hosted model calls
  the tool again after every error. The tool never returns \<open>{"status": "success"}\<close>,
  the agent's run ends at the turn limit, and the exception leaves \<open>run\<close> after four
  chunks, without the report.
\<close>

theorem provider_error_surfaces_counterexample:
  "fst (send_email_tool demo_env_rejected ''Report'' ''<h1># Report</h1>'') = Inl (http_error 500)
   \<and> fst (fst (run demo_env_rejected ''Impact of AI on Healthcare'' 0))
       = Some (Exception ''Max turns exceeded'')
   \<and> chunks (snd (fst (run demo_env_rejected ''Impact of AI on Healthcare'' 0))) =
       [''View trace: https://platform.openai.com/traces/trace?trace_id=trace_0'',
        ''Searches planned, starting to search...'', ''Searches complete, writing report...'',
        ''Report written, sending email...'']"
proof -
  let ?report = "\<lparr>short_summary = ''short'', markdown_report = ''# Report'',
                  follow_up_questions = [''next?'']\<rparr>"
  have a: "fst (send_email_tool demo_env_rejected ''Report'' ''<h1># Report</h1>'')
             = Inl (http_error 500)"
    by (simp add: send_email_tool_def sendgrid_post_def demo_env_rejected_def)
  have p: "fst (plan_searches demo_env_rejected ''Impact of AI on Healthcare'') = Inr demo_plan"
    by code_simp
  have s: "fst (perform_searches demo_env_rejected demo_plan)
             = Inr [''summary 4'', ''summary 3'', ''summary 1'', ''summary 0'']"
    by code_simp
  have w: "fst (write_report demo_env_rejected ''Impact of AI on Healthcare''
                  [''summary 4'', ''summary 3'', ''summary 1'', ''summary 0'']) = Inr ?report"
    by code_simp
  have e: "fst (send_email demo_env_rejected ?report) = Inl (Exception ''Max turns exceeded'')"
    by code_simp
  have t: "view_trace (trace_ids demo_env_rejected 0)
             = ''View trace: https://platform.openai.com/traces/trace?trace_id=trace_0''"
    by code_simp
  from a p s w e t show ?thesis
    by (simp add: run_raised raised_def run_chunks later_chunks_def)
qed

text \<open>
  C3. When planning yields five items of which one fails, and writing and notifying
  succeed, \<open>run\<close> raises nothing and yields exactly six chunks: the trace link, the four
  status messages in their fixed order, and last the report's \<open>markdown_report\<close>; four
  summaries were collected and the email agent is called exactly once, on that text.
\<close>

theorem end_to_end_scenario:
  assumes "fst (plan_searches env q) = Inr search_plan"
    and "length (searches search_plan) = 5"
    and "failed_count env search_plan = 1"
    and "fst (perform_searches env search_plan) = Inr search_results"
    and "fst (write_report env q search_results) = Inr report"
    and "fst (send_email env report) = Inr ()"
  shows "fst (fst (run env q n)) = None
    \<and> chunks (snd (fst (run env q n))) =
        [view_trace (trace_ids env n), ''Searches planned, starting to search...'',
         ''Searches complete, writing report...'', ''Report written, sending email...'',
         ''Email sent, research complete'', markdown_report report]
    \<and> calls_to email_agent (snd (fst (run env q n))) = [markdown_report report]
    \<and> length search_results = 4"
proof -
  have a: "fst (fst (run env q n)) = None"
    using assms by (simp add: run_raised raised_def)
  have b: "chunks (snd (fst (run env q n))) =
        [view_trace (trace_ids env n), ''Searches planned, starting to search...'',
         ''Searches complete, writing report...'', ''Report written, sending email...'',
         ''Email sent, research complete'', markdown_report report]"
    using assms by (simp add: run_chunks later_chunks_def)
  have c: "calls_to email_agent (snd (fst (run env q n))) = [markdown_report report]"
    by (simp add: run_events run_body_done [OF assms(1) assms(4) assms(5) assms(6)]
        calls_to_simps plan_searches_obs perform_searches_obs write_report_obs send_email_obs)
  from perform_searches_length [OF assms(4)] assms(2,3)
  have d: "length search_results = 4"
    by simp
  from a b c d show ?thesis by simp
qed

theorem end_to_end_scenario_witness:
  "fst (fst (run demo_env ''Impact of AI on Healthcare'' 0)) = None
    \<and> chunks (snd (fst (run demo_env ''Impact of AI on Healthcare'' 0))) =
        [''View trace: https://platform.openai.com/traces/trace?trace_id=trace_0'',
         ''Searches planned, starting to search...'',
         ''Searches complete, writing report...'', ''Report written, sending email...'',
         ''Email sent, research complete'', ''# Report'']
    \<and> calls_to email_agent (snd (fst (run demo_env ''Impact of AI on Healthcare'' 0)))
        = [''# Report'']"
proof -
  have five: "length (searches demo_plan) = 5"
    by (simp add: demo_plan_def)
  have t: "view_trace (trace_ids demo_env 0)
             = ''View trace: https://platform.openai.com/traces/trace?trace_id=trace_0''"
    by code_simp
  show ?thesis
    using end_to_end_scenario [OF demo_planned five demo_failed demo_searched demo_written
        demo_sent, of 0] t
    by simp
qed

text \<open>
  C4. When the response of the writer's hosted model does not validate as
  \<open>ReportData\<close>, \<open>write_report\<close> raises, the exception leaves \<open>run\<close>, the chunks
  end after "Searches complete, writing report...", and neither the email agent nor the
  provider is called. A response from which the key \<open>markdown_report\<close> is missing is
  such a response.
\<close>

theorem malformed_report_is_fatal:
  assumes "fst (plan_searches env q) = Inr search_plan"
    and "fst (perform_searches env search_plan) = Inr search_results"
    and "writer_model env (writer_input q search_results) = Inr j"
    and "validate_ReportData j = Inl e"
  shows "fst (write_report env q search_results) = Inl e
    \<and> fst (fst (run env q n)) = Some e
    \<and> chunks (snd (fst (run env q n))) =
        [view_trace (trace_ids env n), ''Searches planned, starting to search...'',
         ''Searches complete, writing report...'']
    \<and> calls_to email_agent (snd (fst (run env q n))) = []
    \<and> mail_posts (snd (fst (run env q n))) = []
    \<and> validate_ReportData (JObj (filter (\<lambda>(k, v). k \<noteq> ''markdown_report'') fs))
        = Inl (validation_error ''ReportData'')"
proof -
  have w: "fst (write_report env q search_results) = Inl e"
    using assms(3,4) by (simp add: write_report_result)
  have a: "fst (fst (run env q n)) = Some e"
    using assms(1,2) w by (simp add: run_raised raised_def)
  have b: "chunks (snd (fst (run env q n))) =
        [view_trace (trace_ids env n), ''Searches planned, starting to search...'',
         ''Searches complete, writing report...'']"
    using assms(1,2) w by (simp add: run_chunks later_chunks_def)
  have c: "calls_to email_agent (snd (fst (run env q n))) = []"
    by (simp add: run_events run_body_write_failed [OF assms(1) assms(2) w]
        calls_to_simps plan_searches_obs perform_searches_obs write_report_obs)
  have d: "mail_posts (snd (fst (run env q n))) = []"
    by (simp add: run_events run_body_write_failed [OF assms(1) assms(2) w]
        mail_posts_simps plan_searches_obs perform_searches_obs write_report_obs)
  from w a b c d validate_without_markdown show ?thesis by simp
qed

theorem malformed_report_is_fatal_witness:
  "fst (fst (run (demo_env\<lparr>writer_model := \<lambda>inp. Inr demo_malformed\<rparr>)
               ''Impact of AI on Healthcare'' 0))
     = Some (validation_error ''ReportData'')
   \<and> chunks (snd (fst (run (demo_env\<lparr>writer_model := \<lambda>inp. Inr demo_malformed\<rparr>)
                         ''Impact of AI on Healthcare'' 0)))
       = [''View trace: https://platform.openai.com/traces/trace?trace_id=trace_0'',
          ''Searches planned, starting to search...'', ''Searches complete, writing report...'']
   \<and> calls_to email_agent (snd (fst (run (demo_env\<lparr>writer_model := \<lambda>inp. Inr demo_malformed\<rparr>)
                                       ''Impact of AI on Healthcare'' 0))) = []"
proof -
  let ?env = "demo_env\<lparr>writer_model := \<lambda>inp. Inr demo_malformed\<rparr>"
  have p: "fst (plan_searches ?env ''Impact of AI on Healthcare'') = Inr demo_plan"
    by code_simp
  have s: "fst (perform_searches ?env demo_plan)
             = Inr [''summary 4'', ''summary 3'', ''summary 1'', ''summary 0'']"
    by code_simp
  have m: "writer_model ?env (writer_input ''Impact of AI on Healthcare''
             [''summary 4'', ''summary 3'', ''summary 1'', ''summary 0'']) = Inr demo_malformed"
    by simp
  have v: "validate_ReportData demo_malformed = Inl (validation_error ''ReportData'')"
    by code_simp
  have t: "view_trace (trace_ids ?env 0)
             = ''View trace: https://platform.openai.com/traces/trace?trace_id=trace_0''"
    by code_simp
  show ?thesis
    using malformed_report_is_fatal [OF p s m v, of 0] t by simp
qed

text \<open>
  C5. When the external call of a search item raises, \<open>search\<close> prints the failure
  and returns \<open>None\<close>; it never raises. So \<open>perform_searches\<close> never raises either,
  and what it returns holds the summary of every item whose call succeeded, whatever
  happened to the others.
\<close>

theorem search_failure_isolated:
  "(search_model env i (search_input item) = Inl e \<longrightarrow>
      search env i item =
        (Inr None, [RunnerCall search_agent (search_input item)],
         [Print (''Search failed for term '' @ [CHR 0x27] @ query item @ [CHR 0x27] @ '': ''
                   @ str_exception e)]))
   \<and> (\<exists>results. fst (perform_searches env search_plan) = Inr results
         \<and> mset results = mset (successful_summaries env search_plan))"
  by (simp add: search_def Runner_run_search_def perform_searches_result mset_perform_searches)

theorem search_failure_isolated_witness:
  "search_model demo_env 2 (search_input \<lparr>reason = ''why c'', query = ''c''\<rparr>) = Inl (Exception ''timeout'')
   \<and> fst (search demo_env 2 \<lparr>reason = ''why c'', query = ''c''\<rparr>) = Inr None
   \<and> (\<exists>results. fst (perform_searches demo_env demo_plan) = Inr results
         \<and> mset results = mset [''summary 0'', ''summary 1'', ''summary 3'', ''summary 4''])"
proof -
  have h: "search_model demo_env 2 (search_input \<lparr>reason = ''why c'', query = ''c''\<rparr>)
             = Inl (Exception ''timeout'')"
    by (simp add: demo_env_def)
  have s: "successful_summaries demo_env demo_plan
             = [''summary 0'', ''summary 1'', ''summary 3'', ''summary 4'']"
    by code_simp
  show ?thesis
    using h s search_failure_isolated [of demo_env 2 "\<lparr>reason = ''why c'', query = ''c''\<rparr>"
        "Exception ''timeout''" demo_plan]
    by simp
qed

text \<open>
  C6. As stated the claim fails: \<open>run\<close> asks \<open>gen_trace_id\<close> for a fresh identifier
  on every invocation and puts it into its first chunk, so two sequential runs on the
  same query with the same stubbed responses differ in their first chunk whenever the
  two identifiers differ. What holds: the second run raises what the first raises, the
  first chunk of each run is the trace link of its own identifier, and from the second
  chunk on the two sequences are identical.
\<close>

theorem rerun_differs_in_trace_chunk:
  "fst (fst (run env q (snd (run env q n)))) = fst (fst (run env q n))
   \<and> hd (chunks (snd (fst (run env q n)))) = view_trace (trace_ids env n)
   \<and> hd (chunks (snd (fst (run env q (snd (run env q n)))))) = view_trace (trace_ids env (Suc n))
   \<and> tl (chunks (snd (fst (run env q (snd (run env q n)))))) = tl (chunks (snd (fst (run env q n))))"
  by (simp add: run_raised run_chunks run_next)

text \<open>
  C6, the failing instance: in the concrete scenario the first run gets \<open>trace_0\<close> and
  the second \<open>trace_1\<close>.
\<close>

theorem rerun_trace_chunk_counterexample:
  "chunks (snd (fst (run demo_env ''Impact of AI on Healthcare''
                       (snd (run demo_env ''Impact of AI on Healthcare'' 0)))))
     \<noteq> chunks (snd (fst (run demo_env ''Impact of AI on Healthcare'' 0)))"
proof -
  have "trace_ids demo_env (Suc 0) = ''trace_1''" "trace_ids demo_env 0 = ''trace_0''"
    by code_simp+
  then show ?thesis
    by (simp add: run_chunks run_next view_trace_def)
qed

text \<open>
  C7. Two assignments of completion times to the tasks of a plan, with the outcomes
  of the external calls unchanged, give the same multiset of summaries: the summaries of
  the items whose call succeeded. Only the order of the returned list depends on the
  completion times.
\<close>

theorem latency_independent:
  "\<exists>results1 results2.
     fst (perform_searches (env\<lparr>latency := l1\<rparr>) search_plan) = Inr results1
     \<and> fst (perform_searches (env\<lparr>latency := l2\<rparr>) search_plan) = Inr results2
     \<and> mset results1 = mset results2
     \<and> mset results1 = mset (successful_summaries env search_plan)"
  by (simp add: perform_searches_result mset_perform_searches successful_summaries_latency)

text \<open>
  C8. \<open>perform_searches\<close> returns after it has awaited every task it created, each
  exactly once, with the summaries of all successful items. In a run whose planning
  succeeded the writer agent is called exactly once, on these results, and every task
  has been awaited before that call.
\<close>

theorem report_after_all_searches:
  "mset (done_tasks (snd (perform_searches env search_plan)))
     = mset [0 ..< length (searches search_plan)]
   \<and> (\<exists>results. fst (perform_searches env search_plan) = Inr results
         \<and> mset results = mset (successful_summaries env search_plan)
         \<and> (fst (plan_searches env q) = Inr search_plan \<longrightarrow>
               calls_to writer_agent (snd (fst (run env q n))) = [writer_input q results]
               \<and> mset (done_tasks (before_writer (snd (fst (run env q n)))))
                   = mset [0 ..< length (searches search_plan)]))"
proof -
  let ?results = "summaries (as_completed env (plan_tasks env search_plan))"
  have r: "fst (perform_searches env search_plan) = Inr ?results"
    by (rule perform_searches_result)
  have m: "mset ?results = mset (successful_summaries env search_plan)"
    by (rule mset_perform_searches)
  have d: "mset (done_tasks (snd (perform_searches env search_plan)))
             = mset [0 ..< length (searches search_plan)]"
    by (rule perform_searches_done)
  have "calls_to writer_agent (snd (fst (run env q n))) = [writer_input q ?results]
        \<and> mset (done_tasks (before_writer (snd (fst (run env q n)))))
             = mset [0 ..< length (searches search_plan)]"
    if p: "fst (plan_searches env q) = Inr search_plan"
  proof -
    let ?pre = "TraceStart ''Research trace'' (trace_ids env n)
       # [Print (view_trace (trace_ids env n)), Yield (view_trace (trace_ids env n)),
          Print ''Starting research...'']
       @ snd (plan_searches env q) @ [Yield ''Searches planned, starting to search...'']
       @ snd (perform_searches env search_plan)
       @ [Yield ''Searches complete, writing report...'', Print ''Thinking about report...'']"
    from run_body_planned [OF p r, of "trace_ids env n"]
    obtain rest where "snd (run_body env q (trace_ids env n)) =
       [Print (view_trace (trace_ids env n)), Yield (view_trace (trace_ids env n)),
          Print ''Starting research...'']
       @ snd (plan_searches env q) @ [Yield ''Searches planned, starting to search...'']
       @ snd (perform_searches env search_plan)
       @ [Yield ''Searches complete, writing report...'', Print ''Thinking about report...'',
          RunnerCall writer_agent (writer_input q ?results)] @ rest"
      by blast
    then have evs: "snd (fst (run env q n)) =
        ?pre @ RunnerCall writer_agent (writer_input q ?results)
                 # (rest @ [TraceFinish (trace_ids env n)])"
      by (simp add: run_events)
    have quiet: "calls_to writer_agent ?pre = []"
      by (simp add: calls_to_simps plan_searches_obs perform_searches_obs)
    have "before_writer (snd (fst (run env q n))) = ?pre"
      unfolding evs using quiet by (rule before_writer_prefix)
    then have "done_tasks (before_writer (snd (fst (run env q n))))
                 = done_tasks (snd (perform_searches env search_plan))"
      by (simp add: done_tasks_simps plan_searches_obs)
    then have "mset (done_tasks (before_writer (snd (fst (run env q n)))))
             = mset [0 ..< length (searches search_plan)]"
      by (simp only: perform_searches_done)
    with run_writer_calls [OF p r] show ?thesis by simp
  qed
  with r m d show ?thesis by blast
qed

theorem report_after_all_searches_witness:
  "fst (plan_searches demo_env ''Impact of AI on Healthcare'') = Inr demo_plan
   \<and> mset (done_tasks (before_writer (snd (fst (run demo_env ''Impact of AI on Healthcare'' 0)))))
       = mset [0, 1, 2, 3, 4]
   \<and> length (calls_to writer_agent (snd (fst (run demo_env ''Impact of AI on Healthcare'' 0)))) = 1"
proof -
  have u: "[0 ..< length (searches demo_plan)] = [0, 1, 2, 3, 4]"
    by code_simp
  from report_after_all_searches [of demo_env demo_plan "''Impact of AI on Healthcare''" 0]
  obtain results where
    "fst (plan_searches demo_env ''Impact of AI on Healthcare'') = Inr demo_plan \<longrightarrow>
       calls_to writer_agent (snd (fst (run demo_env ''Impact of AI on Healthcare'' 0)))
         = [writer_input ''Impact of AI on Healthcare'' results]
       \<and> mset (done_tasks (before_writer (snd (fst (run demo_env ''Impact of AI on Healthcare'' 0)))))
           = mset [0 ..< length (searches demo_plan)]"
    by blast
  with demo_planned u show ?thesis by simp
qed

text \<open>
  C9. Two reports with the same \<open>markdown_report\<close> make \<open>send_email\<close> behave
  identically: the same call of the email agent, the same requests to the provider, the
  same result. And two writer responses that validate to reports with the same
  \<open>markdown_report\<close> (or fail with the same exception) give identical runs, whatever
  their \<open>short_summary\<close> and \<open>follow_up_questions\<close> are.
\<close>

theorem only_markdown_reaches_email:
  "(markdown_report r1 = markdown_report r2 \<longrightarrow> send_email env r1 = send_email env r2)
   \<and> ((\<forall>inp. map_sum id markdown_report (fst (Runner_run_writer (env\<lparr>writer_model := w1\<rparr>) inp))
              = map_sum id markdown_report (fst (Runner_run_writer (env\<lparr>writer_model := w2\<rparr>) inp)))
        \<longrightarrow> run (env\<lparr>writer_model := w1\<rparr>) q n = run (env\<lparr>writer_model := w2\<rparr>) q n)"
proof -
  have "send_email env r1 = send_email env r2" if "markdown_report r1 = markdown_report r2"
    using that by (rule send_email_markdown)
  moreover have "run (env\<lparr>writer_model := w1\<rparr>) q n = run (env\<lparr>writer_model := w2\<rparr>) q n"
    if "\<forall>inp. map_sum id markdown_report (fst (Runner_run_writer (env\<lparr>writer_model := w1\<rparr>) inp))
              = map_sum id markdown_report (fst (Runner_run_writer (env\<lparr>writer_model := w2\<rparr>) inp))"
    using run_body_writer [OF that] by (simp add: run_def gen_trace_id_def)
  ultimately show ?thesis by blast
qed

theorem only_markdown_reaches_email_witness:
  "send_email demo_env \<lparr>short_summary = ''short'', markdown_report = ''# Report'',
                         follow_up_questions = [''next?'']\<rparr>
     = send_email demo_env \<lparr>short_summary = ''another summary'', markdown_report = ''# Report'',
                             follow_up_questions = []\<rparr>
   \<and> run (demo_env\<lparr>writer_model := \<lambda>inp. Inr demo_report\<rparr>) ''Impact of AI on Healthcare'' 0
       = run (demo_env\<lparr>writer_model := \<lambda>inp. Inr demo_report_variant\<rparr>) ''Impact of AI on Healthcare'' 0"
proof -
  have v: "validate_ReportData demo_report
             = Inr \<lparr>short_summary = ''short'', markdown_report = ''# Report'',
                    follow_up_questions = [''next?'']\<rparr>"
          "validate_ReportData demo_report_variant
             = Inr \<lparr>short_summary = ''another summary'', markdown_report = ''# Report'',
                    follow_up_questions = []\<rparr>"
    by code_simp+
  then have h: "\<forall>inp. map_sum id markdown_report
                   (fst (Runner_run_writer (demo_env\<lparr>writer_model := \<lambda>inp. Inr demo_report\<rparr>) inp))
              = map_sum id markdown_report
                   (fst (Runner_run_writer (demo_env\<lparr>writer_model := \<lambda>inp. Inr demo_report_variant\<rparr>) inp))"
    by (simp add: Runner_run_writer_def)
  have m: "markdown_report \<lparr>short_summary = ''short'', markdown_report = ''# Report'',
                         follow_up_questions = [''next?'']\<rparr>
         = markdown_report \<lparr>short_summary = ''another summary'', markdown_report = ''# Report'',
                             follow_up_questions = []\<rparr>"
    by simp
  from only_markdown_reaches_email [of
      "\<lparr>short_summary = ''short'', markdown_report = ''# Report'',
        follow_up_questions = [''next?'']\<rparr>"
      "\<lparr>short_summary = ''another summary'', markdown_report = ''# Report'',
        follow_up_questions = []\<rparr>"
      demo_env "\<lambda>inp. Inr demo_report" "\<lambda>inp. Inr demo_report_variant"
      "''Impact of AI on Healthcare''" 0] h m
  show ?thesis by blast
qed

text \<open>
  C10. \<open>perform_searches\<close> creates one task per item of the plan and calls the search
  agent once per item, whatever the length of the plan; an empty plan gives an empty result
  list and no error. A plan of any length passes the validation of the planner's
  response: \<open>HOW_MANY_SEARCHES\<close> occurs in the planner's instructions only.
\<close>

theorem dispatch_follows_plan:
  "created_tasks (snd (perform_searches env search_plan)) = [0 ..< length (searches search_plan)]
   \<and> calls_to search_agent (snd (perform_searches env search_plan))
       = map search_input (searches search_plan)
   \<and> perform_searches env \<lparr>searches = []\<rparr>
       = (Inr [], [Print ''Searching...'', Print ''Finished searching''])
   \<and> validate_WebSearchPlan
       (JObj [(''searches'',
               JArr (map (\<lambda>item. JObj [(''reason'', JStr (reason item)),
                                         (''query'', JStr (query item))])
                      (searches search_plan)))])
       = Inr search_plan"
proof -
  let ?n = "length (searches search_plan)"
  let ?evs = "snd (collect ?n (as_completed env (plan_tasks env search_plan)) 0 [])"
  have "list_all local_event ?evs"
    by (rule collect_local [OF as_completed_quiet])
  then have silent: "created_tasks ?evs = []" "calls_to search_agent ?evs = []"
    using local_events_silent by blast+
  have c: "created_tasks (snd (perform_searches env search_plan)) = [0 ..< ?n]"
    by (simp only: perform_searches_events created_tasks_simps silent_created silent_calls silent)
       simp
  have r: "calls_to search_agent (snd (perform_searches env search_plan))
             = map search_input (searches search_plan)"
    by (simp only: perform_searches_events calls_to_simps silent_created silent_calls silent)
       simp
  have e: "perform_searches env \<lparr>searches = []\<rparr>
       = (Inr [], [Print ''Searching...'', Print ''Finished searching''])"
    by (simp add: perform_searches_def as_completed_def)
  have v: "validate_WebSearchPlan
       (JObj [(''searches'',
               JArr (map (\<lambda>item. JObj [(''reason'', JStr (reason item)),
                                         (''query'', JStr (query item))])
                      (searches search_plan)))])
       = Inr search_plan"
    by (simp add: validate_WebSearchPlan_def list_field_def validate_items)
  from c r e v show ?thesis by simp
qed

end
